theory Spec2Isabelle
  imports Main "HOL-Library.Char_ord" "HOL-Library.List_Lexorder" "HOL-Library.Multiset"
begin

section \<open>The option map delivered by the command line layer\<close>

text \<open>
  \<open>cli_target.py\<close> receives the parsed command line as a dict \<open>kwargs\<close> and reads it
  with \<open>kwargs.get(key)\<close> only, so a missing key and a key bound to \<open>None\<close> are the same.
  The record below has one field per key the file reads, typed as the click option that
  produces it: a repeatable path is a tuple of strings (empty when the option is not
  given), a flag is a bool, a string or integer option is \<open>None\<close> or a value.
\<close>

record kwargs =
  kw_workspace :: "string list"
  kw_python_file :: "string option"
  kw_working_directory :: "string option"
  kw_empty_working_directory :: bool
  kw_package_name :: "string option"
  kw_module_name :: "string option"
  kw_attribute :: "string option"
  kw_repository_yaml :: "string option"
  kw_grpc_host :: "string option"
  kw_grpc_port :: "int option"
  kw_grpc_socket :: "string option"
  kw_empty_workspace :: bool
  kw_repository :: "string option"
  kw_location :: "string option"
  kw_pipeline :: "string option"

text \<open>Python truth values: \<open>None\<close>, the empty string, the empty tuple, \<open>0\<close> and \<open>False\<close> are false.\<close>

fun str_truthy :: "string option \<Rightarrow> bool" where
  "str_truthy None = False"
| "str_truthy (Some s) = (s \<noteq> [])"

fun int_truthy :: "int option \<Rightarrow> bool" where
  "int_truthy None = False"
| "int_truthy (Some i) = (i \<noteq> 0)"

text \<open>\<open>bool(kwargs.get(key))\<close>: the truth value of the entry under a key given by name.\<close>

definition kwargs_get :: "kwargs \<Rightarrow> string \<Rightarrow> bool" where
  "kwargs_get kw key =
    (if key = ''workspace'' then kw_workspace kw \<noteq> []
     else if key = ''python_file'' then str_truthy (kw_python_file kw)
     else if key = ''working_directory'' then str_truthy (kw_working_directory kw)
     else if key = ''empty_working_directory'' then kw_empty_working_directory kw
     else if key = ''package_name'' then str_truthy (kw_package_name kw)
     else if key = ''module_name'' then str_truthy (kw_module_name kw)
     else if key = ''attribute'' then str_truthy (kw_attribute kw)
     else if key = ''repository_yaml'' then str_truthy (kw_repository_yaml kw)
     else if key = ''grpc_host'' then str_truthy (kw_grpc_host kw)
     else if key = ''grpc_port'' then int_truthy (kw_grpc_port kw)
     else if key = ''grpc_socket'' then str_truthy (kw_grpc_socket kw)
     else if key = ''empty_workspace'' then kw_empty_workspace kw
     else if key = ''repository'' then str_truthy (kw_repository kw)
     else if key = ''location'' then str_truthy (kw_location kw)
     else if key = ''pipeline'' then str_truthy (kw_pipeline kw)
     else False)"

text \<open>The dict in which every option is absent.\<close>

definition no_kwargs :: kwargs where
  "no_kwargs =
    \<lparr>kw_workspace = [], kw_python_file = None, kw_working_directory = None,
     kw_empty_working_directory = False, kw_package_name = None, kw_module_name = None,
     kw_attribute = None, kw_repository_yaml = None, kw_grpc_host = None, kw_grpc_port = None,
     kw_grpc_socket = None, kw_empty_workspace = False, kw_repository = None, kw_location = None,
     kw_pipeline = None\<rparr>"

section \<open>Errors and the process environment\<close>

text \<open>
  \<open>click.UsageError(msg)\<close> carries its message. \<open>check.invariant(cond, desc)\<close> and
  \<open>check.failed(desc)\<close> of \<open>dagster.check\<close> raise a check error; the model keeps the
  description the caller passed. \<open>KeyError\<close> is a failed \<open>d[key]\<close>, \<open>LoadFailed\<close> an
  exception raised while user code is imported. \<open>NoReturnValue\<close> stands for a function body that ends
  without a \<open>return\<close> (Python then returns \<open>None\<close>).
\<close>

datatype error =
    UsageError string
  | CheckInvariantFailed "string option"
  | CheckFailed string
  | KeyError string
  | LoadFailed string
  | NoReturnValue

text \<open>
  What the functions read from the running process: \<open>os.getcwd()\<close>,
  \<open>os.path.exists("workspace.yaml")\<close> and \<open>sys.executable\<close>.
\<close>

record process =
  getcwd :: string
  workspace_yaml_exists :: bool
  executable :: string

section \<open>Load targets\<close>

text \<open>
  The named tuples of \<open>dagster.core.workspace.load_target\<close>, fields in the order of the
  keyword arguments used in \<open>cli_target.py\<close>:
  \<open>PythonFileTarget(python_file, attribute, working_directory, location_name)\<close>,
  \<open>ModuleTarget(module_name, attribute, location_name)\<close>,
  \<open>PackageTarget(package_name, attribute, location_name)\<close>,
  \<open>GrpcServerTarget(port, socket, host, location_name)\<close>.
\<close>

datatype load_target =
    EmptyWorkspaceTarget
  | WorkspaceFileTarget "string list"
  | PythonFileTarget "string option" "string option" "string option" "string option"
  | ModuleTarget "string option" "string option" "string option"
  | PackageTarget "string option" "string option" "string option"
  | GrpcServerTarget "int option" "string option" "string option" "string option"

definition default_invariant_msg :: string where
  "default_invariant_msg =
    ''Invalid set of CLI arguments for loading repository/pipeline. See --help for details.''"

text \<open>\<open>_cli_load_invariant(condition, msg=None)\<close>; \<open>msg or ...\<close> replaces \<open>None\<close> and \<open>""\<close>.\<close>

definition cli_load_invariant :: "bool \<Rightarrow> string option \<Rightarrow> error + unit" where
  "cli_load_invariant condition msg =
    (let msg' = (case msg of
                   None \<Rightarrow> default_invariant_msg
                 | Some m \<Rightarrow> if m \<noteq> [] then m else default_invariant_msg)
     in if \<not> condition then Inl (UsageError msg') else Inr ())"

text \<open>\<open>_check_cli_arguments_none(kwargs, *keys)\<close>: the loop stops at the first raise.\<close>

fun check_cli_arguments_none :: "kwargs \<Rightarrow> string list \<Rightarrow> error + unit" where
  "check_cli_arguments_none kw [] = Inr ()"
| "check_cli_arguments_none kw (key # keys) =
    (case cli_load_invariant (\<not> kwargs_get kw key) None of
       Inl e \<Rightarrow> Inl e
     | Inr u \<Rightarrow> check_cli_arguments_none kw keys)"

fun are_all_keys_empty :: "kwargs \<Rightarrow> string list \<Rightarrow> bool" where
  "are_all_keys_empty kw [] = True"
| "are_all_keys_empty kw (key # keys) =
    (if kwargs_get kw key then False else are_all_keys_empty kw keys)"

definition WORKSPACE_CLI_ARGS :: "string list" where
  "WORKSPACE_CLI_ARGS =
    [''workspace'', ''python_file'', ''working_directory'', ''empty_working_directory'',
     ''package_name'', ''module_name'', ''attribute'', ''repository_yaml'', ''grpc_host'',
     ''grpc_port'', ''grpc_socket'']"

definition get_working_directory_from_kwargs :: "process \<Rightarrow> kwargs \<Rightarrow> string option" where
  "get_working_directory_from_kwargs os kw =
    (if kwargs_get kw ''empty_working_directory'' then None
     else if kwargs_get kw ''working_directory'' then kw_working_directory kw
     else Some (getcwd os))"

text \<open>\<open>kwargs.get("grpc_host") if kwargs.get("grpc_host") else "localhost"\<close>\<close>

definition grpc_host_or_localhost :: "kwargs \<Rightarrow> string option" where
  "grpc_host_or_localhost kw =
    (if kwargs_get kw ''grpc_host'' then kw_grpc_host kw else Some ''localhost'')"

definition created_workspace_load_target :: "process \<Rightarrow> kwargs \<Rightarrow> error + load_target" where
  "created_workspace_load_target os kw =
    (if are_all_keys_empty kw WORKSPACE_CLI_ARGS then
       (if kwargs_get kw ''empty_workspace'' then Inr EmptyWorkspaceTarget
        else if workspace_yaml_exists os then Inr (WorkspaceFileTarget [''workspace.yaml''])
        else Inl (UsageError ''No arguments given and workspace.yaml not found.''))
     else if kwargs_get kw ''workspace'' then
       (case check_cli_arguments_none kw
               [''python_file'', ''working_directory'', ''empty_working_directory'',
                ''module_name'', ''package_name'', ''attribute'', ''grpc_host'',
                ''grpc_port'', ''grpc_socket''] of
          Inl e \<Rightarrow> Inl e
        | Inr u \<Rightarrow> Inr (WorkspaceFileTarget (kw_workspace kw)))
     else if kwargs_get kw ''python_file'' then
       (case check_cli_arguments_none kw
               [''module_name'', ''package_name'', ''grpc_host'', ''grpc_port'',
                ''grpc_socket''] of
          Inl e \<Rightarrow> Inl e
        | Inr u \<Rightarrow>
            Inr (PythonFileTarget (kw_python_file kw) (kw_attribute kw)
                   (get_working_directory_from_kwargs os kw) None))
     else if kwargs_get kw ''module_name'' then
       (case check_cli_arguments_none kw
               [''package_name'', ''working_directory'', ''empty_working_directory'',
                ''grpc_host'', ''grpc_port'', ''grpc_socket''] of
          Inl e \<Rightarrow> Inl e
        | Inr u \<Rightarrow> Inr (ModuleTarget (kw_module_name kw) (kw_attribute kw) None))
     else if kwargs_get kw ''package_name'' then
       (case check_cli_arguments_none kw
               [''working_directory'', ''empty_working_directory'', ''grpc_host'',
                ''grpc_port'', ''grpc_socket''] of
          Inl e \<Rightarrow> Inl e
        | Inr u \<Rightarrow> Inr (PackageTarget (kw_package_name kw) (kw_attribute kw) None))
     else if kwargs_get kw ''grpc_port'' then
       (case check_cli_arguments_none kw
               [''attribute'', ''working_directory'', ''empty_working_directory'',
                ''grpc_socket''] of
          Inl e \<Rightarrow> Inl e
        | Inr u \<Rightarrow> Inr (GrpcServerTarget (kw_grpc_port kw) None (grpc_host_or_localhost kw) None))
     else if kwargs_get kw ''grpc_socket'' then
       (case check_cli_arguments_none kw
               [''attribute'', ''working_directory'', ''empty_working_directory''] of
          Inl e \<Rightarrow> Inl e
        | Inr u \<Rightarrow> Inr (GrpcServerTarget None (kw_grpc_socket kw) (grpc_host_or_localhost kw) None))
     else
       (case cli_load_invariant False None of
          Inl e \<Rightarrow> Inl e
        | Inr u \<Rightarrow> Inl NoReturnValue))"

section \<open>Rendering candidate names\<close>

text \<open>\<open>sep.join(items)\<close>\<close>

fun py_join :: "string \<Rightarrow> string list \<Rightarrow> string" where
  "py_join sep [] = []"
| "py_join sep [x] = x"
| "py_join sep (x # y # ys) = x @ sep @ py_join sep (y # ys)"

text \<open>\<open>"'{}'".format(s)\<close>; the quote is the character with code 39.\<close>

definition quoted :: "string \<Rightarrow> string" where
  "quoted s = [CHR 0x27] @ s @ [CHR 0x27]"

text \<open>
  \<open>_sorted_quoted(strings)\<close>. Python's \<open>sorted\<close> on strings orders them by code point,
  position by position, a proper prefix first: the lexicographic order on \<open>char list\<close>.
\<close>

definition sorted_quoted :: "string list \<Rightarrow> string" where
  "sorted_quoted strings = ''['' @ py_join '', '' (map quoted (sort strings)) @ '']''"

section \<open>Dicts\<close>

text \<open>
  A Python dict as the list of its items in insertion order. \<open>d[k] = v\<close> replaces the
  value of a key that is present, in place, and appends a new key otherwise.
\<close>

type_synonym ('k, 'v) dict = "('k \<times> 'v) list"

fun dict_setitem :: "('k, 'v) dict \<Rightarrow> 'k \<Rightarrow> 'v \<Rightarrow> ('k, 'v) dict" where
  "dict_setitem [] k v = [(k, v)]"
| "dict_setitem ((k', v') # d) k v =
    (if k' = k then (k', v) # d else (k', v') # dict_setitem d k v)"

definition dict_keys :: "('k, 'v) dict \<Rightarrow> 'k list" where
  "dict_keys d = map fst d"

definition dict_values :: "('k, 'v) dict \<Rightarrow> 'v list" where
  "dict_values d = map snd d"

definition dict_contains :: "'k \<Rightarrow> ('k, 'v) dict \<Rightarrow> bool" where
  "dict_contains k d = (k \<in> set (dict_keys d))"

text \<open>\<open>{key(x): val(x) for x in xs}\<close>: the items are stored one after the other.\<close>

definition dict_comprehension :: "('a \<Rightarrow> 'k) \<Rightarrow> ('a \<Rightarrow> 'v) \<Rightarrow> 'a list \<Rightarrow> ('k, 'v) dict" where
  "dict_comprehension key val xs = foldl (\<lambda>d x. dict_setitem d (key x) (val x)) [] xs"

text \<open>\<open>d[k]\<close> for a key given as a string.\<close>

definition dict_getitem :: "(string, 'v) dict \<Rightarrow> string \<Rightarrow> error + 'v" where
  "dict_getitem d k = (case map_of d k of None \<Rightarrow> Inl (KeyError k) | Some v \<Rightarrow> Inr v)"

section \<open>Navigating a workspace\<close>

text \<open>
  Modelled from the spec: \<open>WorkspaceRequestContext\<close> (\<open>dagster.core.workspace.context\<close>) is
  outside the sources. Section 3 of the specification describes a workspace as an ordered
  set of named locations, each in a success or an error state, a failed location staying
  enumerable. \<open>repository_location_error ws n\<close> is \<open>None\<close> when
  \<open>has_repository_location_error(n)\<close> is false and otherwise the text
  \<open>str(get_repository_location_error(n))\<close>; \<open>repository_location ws n\<close> is
  \<open>get_repository_location(n)\<close>.
\<close>

record 'loc workspace_request_context =
  repository_location_names :: "string list"
  repository_location_error :: "string \<Rightarrow> string option"
  repository_location :: "string \<Rightarrow> 'loc"

text \<open>
  \<open>get_repository_location_from_workspace\<close>, first part: the statements that settle
  \<open>provided_location_name\<close>, up to the membership test.
\<close>

definition select_repository_location_name ::
  "'loc workspace_request_context \<Rightarrow> string option \<Rightarrow> error + string" where
  \<open>select_repository_location_name ws provided_location_name =
    (let names = repository_location_names ws in
     case (case provided_location_name of
             None \<Rightarrow>
               if length names = 1 then Inr (names ! 0)
               else if length names = 0 then Inl (UsageError ''No locations found in workspace'')
               else Inl (UsageError
                      (''Must provide --location as there are multiple locations ''
                       @ ''available. Options are: '' @ sorted_quoted names))
           | Some n \<Rightarrow> Inr n) of
       Inl e \<Rightarrow> Inl e
     | Inr n \<Rightarrow>
         if n \<notin> set names then
           Inl (UsageError
                 (''Location "'' @ n @ ''" not found in workspace. ''
                  @ ''Found '' @ sorted_quoted names @ '' instead.''))
         else Inr n)\<close>

text \<open>Second part: the load error test on the settled name, and the return.\<close>

definition load_selected_repository_location ::
  "'loc workspace_request_context \<Rightarrow> string \<Rightarrow> error + 'loc" where
  \<open>load_selected_repository_location ws n =
    (case repository_location_error ws n of
       Some error_str \<Rightarrow>
         Inl (UsageError (''Error loading location "'' @ n @ ''": '' @ error_str))
     | None \<Rightarrow> Inr (repository_location ws n))\<close>

definition get_repository_location_from_workspace ::
  "'loc workspace_request_context \<Rightarrow> string option \<Rightarrow> error + 'loc" where
  "get_repository_location_from_workspace ws provided_location_name =
    (case select_repository_location_name ws provided_location_name of
       Inl e \<Rightarrow> Inl e
     | Inr n \<Rightarrow> load_selected_repository_location ws n)"

text \<open>
  Modelled from the spec: \<open>RepositoryLocation\<close> and \<open>ExternalRepository\<close>
  (\<open>dagster.core.host_representation\<close>) are outside the sources. By section 3 a location
  is a name with a mapping of repository name to repository, and a repository a name
  with its pipelines, each of which has a name. \<open>get_repositories()\<close> is the mapping,
  \<open>has_repository(n)\<close> is membership in it and \<open>get_repository(n)\<close> the lookup.
\<close>

record 'a external_pipeline =
  pipeline_name :: string
  pipeline_data :: 'a

record 'a external_repository =
  repository_name :: string
  get_all_external_pipelines :: "'a external_pipeline list"

record 'a repository_location_rec =
  location_name :: string
  get_repositories :: "(string, 'a external_repository) dict"

definition has_repository :: "'a repository_location_rec \<Rightarrow> string \<Rightarrow> bool" where
  "has_repository repo_location n = dict_contains n (get_repositories repo_location)"

definition get_repository ::
  "'a repository_location_rec \<Rightarrow> string \<Rightarrow> error + 'a external_repository" where
  "get_repository repo_location n = dict_getitem (get_repositories repo_location) n"

definition get_external_repository_from_repo_location ::
  "'a repository_location_rec \<Rightarrow> string option \<Rightarrow> error + 'a external_repository" where
  \<open>get_external_repository_from_repo_location repo_location provided_repo_name =
    (let repo_dict = get_repositories repo_location in
     if repo_dict = [] then Inl (CheckInvariantFailed (Some ''There should be at least one repo.''))
     else if provided_repo_name = None \<and> length repo_dict = 1 then
       Inr (dict_values repo_dict ! 0)
     else
       (case provided_repo_name of
          None \<Rightarrow>
            Inl (UsageError
                  (''Must provide --repository as there is more than one repository ''
                   @ ''in '' @ location_name repo_location @ ''. Options are: ''
                   @ sorted_quoted (dict_keys repo_dict) @ ''.''))
        | Some n \<Rightarrow>
            if \<not> has_repository repo_location n then
              Inl (UsageError
                    (''Repository "'' @ n @ ''" not found in location "''
                     @ location_name repo_location @ ''". ''
                     @ ''Found '' @ sorted_quoted (dict_keys repo_dict) @ '' instead.''))
            else get_repository repo_location n))\<close>

definition get_external_pipeline_from_external_repo ::
  "'a external_repository \<Rightarrow> string option \<Rightarrow> error + 'a external_pipeline" where
  \<open>get_external_pipeline_from_external_repo external_repo provided_pipeline_name =
    (let external_pipelines =
           dict_comprehension pipeline_name (\<lambda>ep. ep) (get_all_external_pipelines external_repo)
     in
     if external_pipelines = [] then Inl (CheckInvariantFailed None)
     else if provided_pipeline_name = None \<and> length external_pipelines = 1 then
       Inr (dict_values external_pipelines ! 0)
     else
       (case provided_pipeline_name of
          None \<Rightarrow>
            Inl (UsageError
                  (''Must provide --pipeline as there is more than one pipeline ''
                   @ ''in '' @ repository_name external_repo @ ''. Options are: ''
                   @ sorted_quoted (dict_keys external_pipelines) @ ''.''))
        | Some n \<Rightarrow>
            if \<not> dict_contains n external_pipelines then
              Inl (UsageError
                    (''Pipeline "'' @ n @ ''" not found in repository "''
                     @ repository_name external_repo @ ''". ''
                     @ ''Found '' @ sorted_quoted (dict_keys external_pipelines) @ '' instead.''))
            else dict_getitem external_pipelines n))\<close>

text \<open>
  The \<open>..._from_kwargs\<close> context managers chain the three steps. The workspace that
  \<open>get_workspace_from_kwargs\<close> opens from the load target is passed in; an exception
  raised by one step leaves the \<open>with\<close> block before the next step runs.
\<close>

definition get_repository_location_from_kwargs ::
  "'a repository_location_rec workspace_request_context \<Rightarrow> kwargs
     \<Rightarrow> error + 'a repository_location_rec" where
  "get_repository_location_from_kwargs ws kw =
    get_repository_location_from_workspace ws (kw_location kw)"

definition get_external_repository_from_kwargs ::
  "'a repository_location_rec workspace_request_context \<Rightarrow> kwargs
     \<Rightarrow> error + 'a external_repository" where
  "get_external_repository_from_kwargs ws kw =
    (case get_repository_location_from_kwargs ws kw of
       Inl e \<Rightarrow> Inl e
     | Inr repo_location \<Rightarrow>
         get_external_repository_from_repo_location repo_location (kw_repository kw))"

definition get_external_pipeline_from_kwargs ::
  "'a repository_location_rec workspace_request_context \<Rightarrow> kwargs
     \<Rightarrow> error + 'a external_pipeline" where
  "get_external_pipeline_from_kwargs ws kw =
    (case get_external_repository_from_kwargs ws kw of
       Inl e \<Rightarrow> Inl e
     | Inr external_repo \<Rightarrow>
         get_external_pipeline_from_external_repo external_repo (kw_pipeline kw))"

section \<open>Code pointers and origins\<close>

text \<open>
  Modelled from the spec: \<open>CodePointer\<close> (\<open>dagster.core.code_pointer\<close>) and
  \<open>RepositoryPythonOrigin\<close> (\<open>dagster.core.origin\<close>) are outside the sources. By section 3
  a code pointer is one of file + attribute + working directory, module + attribute,
  package + attribute, and a repository origin is an executable identity with a code
  pointer. The constructors stand for \<open>CodePointer.from_python_file\<close>,
  \<open>CodePointer.from_module\<close> and \<open>CodePointer.from_python_package\<close>.
\<close>

datatype code_pointer =
    FileCodePointer "string option" "string option" "string option"
  | ModuleCodePointer "string option" "string option"
  | PackageCodePointer "string option" "string option"

datatype repository_python_origin = RepositoryPythonOrigin string code_pointer

text \<open>
  \<open>get_loadable_targets\<close> (\<open>dagster.grpc.utils\<close>) imports user code and
  \<open>repository_def_from_target_def\<close> wraps a definition into a repository; both are
  outside the sources and are parameters here. A loadable target has an attribute name
  and a definition; \<open>repository_def_name\<close> is
  \<open>repository_def_from_target_def(target_definition).name\<close>.
\<close>

record 'd loadable_target =
  target_attribute :: string
  target_definition :: 'd

record 'd code_loader =
  get_loadable_targets ::
    "string option \<Rightarrow> string option \<Rightarrow> string option \<Rightarrow> string option \<Rightarrow> string option
       \<Rightarrow> error + 'd loadable_target list"
  repository_def_name :: "'d \<Rightarrow> string"

definition get_code_pointer_dict_from_kwargs ::
  "'d code_loader \<Rightarrow> process \<Rightarrow> kwargs \<Rightarrow> error + (string, code_pointer) dict" where
  "get_code_pointer_dict_from_kwargs loader os kw =
    (let python_file = kw_python_file kw;
         module_name' = kw_module_name kw;
         package_name = kw_package_name kw;
         working_directory = get_working_directory_from_kwargs os kw;
         attribute' = kw_attribute kw
     in
     if kwargs_get kw ''python_file'' then
       (case check_cli_arguments_none kw [''module_name'', ''package_name''] of
          Inl e \<Rightarrow> Inl e
        | Inr u \<Rightarrow>
            (case get_loadable_targets loader python_file module_name' package_name
                    working_directory attribute' of
               Inl e \<Rightarrow> Inl e
             | Inr targets \<Rightarrow>
                 Inr (dict_comprehension
                        (\<lambda>t. repository_def_name loader (target_definition t))
                        (\<lambda>t. FileCodePointer python_file (Some (target_attribute t))
                                working_directory)
                        targets)))
     else if kwargs_get kw ''module_name'' then
       (case check_cli_arguments_none kw
               [''python_file'', ''working_directory'', ''package_name''] of
          Inl e \<Rightarrow> Inl e
        | Inr u \<Rightarrow>
            (case get_loadable_targets loader python_file module_name' package_name
                    working_directory attribute' of
               Inl e \<Rightarrow> Inl e
             | Inr targets \<Rightarrow>
                 Inr (dict_comprehension
                        (\<lambda>t. repository_def_name loader (target_definition t))
                        (\<lambda>t. ModuleCodePointer module_name' (Some (target_attribute t)))
                        targets)))
     else if kwargs_get kw ''package_name'' then
       (case check_cli_arguments_none kw
               [''module_name'', ''python_file'', ''working_directory''] of
          Inl e \<Rightarrow> Inl e
        | Inr u \<Rightarrow>
            (case get_loadable_targets loader python_file module_name' package_name
                    working_directory attribute' of
               Inl e \<Rightarrow> Inl e
             | Inr targets \<Rightarrow>
                 Inr (dict_comprehension
                        (\<lambda>t. repository_def_name loader (target_definition t))
                        (\<lambda>t. PackageCodePointer package_name (Some (target_attribute t)))
                        targets)))
     else Inl (CheckFailed ''Must specify a Python file or module name''))"

definition get_repository_python_origin_from_kwargs ::
  "'d code_loader \<Rightarrow> process \<Rightarrow> kwargs \<Rightarrow> error + repository_python_origin" where
  \<open>get_repository_python_origin_from_kwargs loader os kw =
    (let provided_repo_name = kw_repository kw in
     if \<not> (kwargs_get kw ''python_file'' \<or> kwargs_get kw ''module_name''
            \<or> kwargs_get kw ''package_name'') then
       Inl (UsageError ''Must specify a python file or module name'')
     else if kwargs_get kw ''attribute'' \<and> \<not> str_truthy provided_repo_name then
       (if kwargs_get kw ''python_file'' then
          (case check_cli_arguments_none kw [''module_name'', ''package_name''] of
             Inl e \<Rightarrow> Inl e
           | Inr u \<Rightarrow>
               Inr (RepositoryPythonOrigin (executable os)
                      (FileCodePointer (kw_python_file kw) (kw_attribute kw)
                         (get_working_directory_from_kwargs os kw))))
        else if kwargs_get kw ''module_name'' then
          (case check_cli_arguments_none kw
                  [''python_file'', ''working_directory'', ''package_name''] of
             Inl e \<Rightarrow> Inl e
           | Inr u \<Rightarrow>
               Inr (RepositoryPythonOrigin (executable os)
                      (ModuleCodePointer (kw_module_name kw) (kw_attribute kw))))
        else if kwargs_get kw ''package_name'' then
          (case check_cli_arguments_none kw
                  [''python_file'', ''working_directory'', ''module_name''] of
             Inl e \<Rightarrow> Inl e
           | Inr u \<Rightarrow>
               Inr (RepositoryPythonOrigin (executable os)
                      (PackageCodePointer (kw_package_name kw) (kw_attribute kw))))
        else Inl (CheckFailed ''Must specify a Python file or module name''))
     else
       (case get_code_pointer_dict_from_kwargs loader os kw of
          Inl e \<Rightarrow> Inl e
        | Inr code_pointer_dict \<Rightarrow>
            if provided_repo_name = None \<and> length code_pointer_dict = 1 then
              Inr (RepositoryPythonOrigin (executable os) (dict_values code_pointer_dict ! 0))
            else
              (case provided_repo_name of
                 None \<Rightarrow>
                   Inl (UsageError
                         (''Must provide --repository as there is more than one repository. ''
                          @ ''Options are: '' @ sorted_quoted (dict_keys code_pointer_dict)
                          @ ''.''))
               | Some n \<Rightarrow>
                   if \<not> dict_contains n code_pointer_dict then
                     Inl (UsageError
                           (''Repository "'' @ n @ ''" not found. Found ''
                            @ sorted_quoted (dict_keys code_pointer_dict) @ '' instead.''))
                   else
                     (case dict_getitem code_pointer_dict n of
                        Inl e \<Rightarrow> Inl e
                      | Inr code_pointer \<Rightarrow>
                          Inr (RepositoryPythonOrigin (executable os) code_pointer)))))\<close>

section \<open>Mutual exclusion groups\<close>

text \<open>
  The options that open a branch of \<open>created_workspace_load_target\<close>, in the order of the
  branches, and for each of them the keys its branch passes to
  \<open>_check_cli_arguments_none\<close>.
\<close>

definition governing_options :: "string list" where
  "governing_options =
    [''workspace'', ''python_file'', ''module_name'', ''package_name'', ''grpc_port'',
     ''grpc_socket'']"

definition forbidden_companions :: "string \<Rightarrow> string list" where
  "forbidden_companions g =
    (if g = ''workspace'' then
       [''python_file'', ''working_directory'', ''empty_working_directory'', ''module_name'',
        ''package_name'', ''attribute'', ''grpc_host'', ''grpc_port'', ''grpc_socket'']
     else if g = ''python_file'' then
       [''module_name'', ''package_name'', ''grpc_host'', ''grpc_port'', ''grpc_socket'']
     else if g = ''module_name'' then
       [''package_name'', ''working_directory'', ''empty_working_directory'', ''grpc_host'',
        ''grpc_port'', ''grpc_socket'']
     else if g = ''package_name'' then
       [''working_directory'', ''empty_working_directory'', ''grpc_host'', ''grpc_port'',
        ''grpc_socket'']
     else if g = ''grpc_port'' then
       [''attribute'', ''working_directory'', ''empty_working_directory'', ''grpc_socket'']
     else if g = ''grpc_socket'' then
       [''attribute'', ''working_directory'', ''empty_working_directory'']
     else [])"

text \<open>
  An option map mixes groups when some governing option is set together with another
  governing option or with one of its own forbidden companions. An option is set when
  \<open>kwargs.get\<close> of it is true, which is the test the code applies.
\<close>

definition conflicting_targets :: "kwargs \<Rightarrow> bool" where
  "conflicting_targets kw =
    list_ex (\<lambda>g. kwargs_get kw g \<and>
                 list_ex (kwargs_get kw) (removeAll g governing_options @ forbidden_companions g))
      governing_options"

section \<open>Example collaborators\<close>

text \<open>
  A process, a loader whose import of user code always fails, and a loader that finds
  two targets, \<open>first\<close> and \<open>second\<close>, whose definitions both wrap into a repository
  named after the definition.
\<close>

definition example_process :: process where
  "example_process = \<lparr>getcwd = ''/home'', workspace_yaml_exists = False, executable = ''python''\<rparr>"

definition failing_loader :: "string code_loader" where
  "failing_loader =
    \<lparr>get_loadable_targets = (\<lambda>python_file module package working_directory attr.
        Inl (LoadFailed ''cannot import'')),
     repository_def_name = (\<lambda>d. d)\<rparr>"

definition two_target_loader :: "string code_loader" where
  "two_target_loader =
    \<lparr>get_loadable_targets = (\<lambda>python_file module package working_directory attr.
        Inr [\<lparr>target_attribute = ''first'', target_definition = ''main_repo''\<rparr>,
             \<lparr>target_attribute = ''second'', target_definition = ''main_repo''\<rparr>]),
     repository_def_name = (\<lambda>d. d)\<rparr>"

section \<open>Auxiliary facts\<close>

lemma check_cli_arguments_none_eq:
  "check_cli_arguments_none kw keys =
     (if list_ex (kwargs_get kw) keys then Inl (UsageError default_invariant_msg) else Inr ())"
  by (induction keys) (simp_all add: cli_load_invariant_def)

lemma are_all_keys_empty_eq:
  "are_all_keys_empty kw keys = (\<not> list_ex (kwargs_get kw) keys)"
  by (induction keys) simp_all


lemma map_of_dict_setitem: "map_of (dict_setitem d k v) = (map_of d)(k \<mapsto> v)"
  by (induction d k v rule: dict_setitem.induct) (auto simp: fun_eq_iff)

lemma dict_setitem_not_Nil: "dict_setitem d k v \<noteq> []"
  by (cases d) (auto split: if_splits)

lemma map_of_foldl_setitem_other:
  "\<forall>y\<in>set ys. key y \<noteq> k \<Longrightarrow>
     map_of (foldl (\<lambda>d x. dict_setitem d (key x) (val x)) d ys) k = map_of d k"
  by (induction ys arbitrary: d) (auto simp: map_of_dict_setitem)

lemma map_of_dict_comprehension_last:
  assumes "\<forall>y\<in>set ys. key y \<noteq> key t"
  shows "map_of (dict_comprehension key val (xs @ t # ys)) (key t) = Some (val t)"
  using assms
  by (simp add: dict_comprehension_def map_of_foldl_setitem_other map_of_dict_setitem)

lemma foldl_setitem_not_Nil:
  "d \<noteq> [] \<Longrightarrow> foldl (\<lambda>d x. dict_setitem d (key x) (val x)) d xs \<noteq> []"
  by (induction xs arbitrary: d) (simp_all add: dict_setitem_not_Nil)

lemma dict_comprehension_Nil_iff: "dict_comprehension key val xs = [] \<longleftrightarrow> xs = []"
  by (cases xs) (simp_all add: dict_comprehension_def foldl_setitem_not_Nil dict_setitem_not_Nil)

lemma dict_contains_iff: "dict_contains k d \<longleftrightarrow> map_of d k \<noteq> None"
  by (simp add: dict_contains_def dict_keys_def map_of_eq_None_iff)

section \<open>Resolution of the load target\<close>

text \<open>
  Claim C1. Every option map that holds options of two different mutual exclusion groups
  (two governing options, or a governing option with one of the companions its branch
  forbids) is rejected: \<open>created_workspace_load_target\<close> raises the usage error of
  \<open>_cli_load_invariant\<close> and returns no load target. The code has one usage error for
  every violated exclusion, with the fixed message \<open>default_invariant_msg\<close>.
\<close>

theorem conflicting_targets_rejected:
  assumes "conflicting_targets kw"
  shows "created_workspace_load_target os kw = Inl (UsageError default_invariant_msg)"
proof -
  have "list_ex (kwargs_get kw) WORKSPACE_CLI_ARGS"
    using assms
    by (auto simp: conflicting_targets_def governing_options_def WORKSPACE_CLI_ARGS_def)
  then have first: "\<not> are_all_keys_empty kw WORKSPACE_CLI_ARGS"
    by (simp add: are_all_keys_empty_eq)
  show ?thesis
    using assms first
    unfolding conflicting_targets_def governing_options_def forbidden_companions_def
      created_workspace_load_target_def check_cli_arguments_none_eq
    by (auto simp: cli_load_invariant_def)
qed

theorem conflicting_targets_rejected_witness:
  "conflicting_targets (no_kwargs\<lparr>kw_module_name := Some ''pkg.defs'',
       kw_working_directory := Some ''/srv''\<rparr>)
   \<and> created_workspace_load_target \<lparr>getcwd = ''/home'', workspace_yaml_exists = True,
         executable = ''python''\<rparr>
        (no_kwargs\<lparr>kw_module_name := Some ''pkg.defs'', kw_working_directory := Some ''/srv''\<rparr>)
      = Inl (UsageError default_invariant_msg)"
proof -
  have h: "conflicting_targets (no_kwargs\<lparr>kw_module_name := Some ''pkg.defs'',
       kw_working_directory := Some ''/srv''\<rparr>)"
    by (simp add: conflicting_targets_def governing_options_def forbidden_companions_def
        kwargs_get_def no_kwargs_def)
  show ?thesis
    using h conflicting_targets_rejected [OF h] by simp
qed

text \<open>
  Claim C5. When no key of \<open>WORKSPACE_CLI_ARGS\<close> is set, the resolver returns the empty
  target if the empty-workspace flag is set; otherwise the target of the single file
  \<open>workspace.yaml\<close> if that file exists in the current directory; otherwise it raises the
  usage error \<open>No arguments given and workspace.yaml not found.\<close>
\<close>

theorem no_target_option_default:
  assumes "\<forall>key\<in>set WORKSPACE_CLI_ARGS. \<not> kwargs_get kw key"
  shows "created_workspace_load_target os kw =
    (if kw_empty_workspace kw then Inr EmptyWorkspaceTarget
     else if workspace_yaml_exists os then Inr (WorkspaceFileTarget [''workspace.yaml''])
     else Inl (UsageError ''No arguments given and workspace.yaml not found.''))"
proof -
  have "are_all_keys_empty kw WORKSPACE_CLI_ARGS"
    using assms by (simp add: are_all_keys_empty_eq list_ex_iff)
  moreover have "kwargs_get kw ''empty_workspace'' = kw_empty_workspace kw"
    by (simp add: kwargs_get_def)
  ultimately show ?thesis
    by (simp add: created_workspace_load_target_def)
qed

theorem no_target_option_default_witness:
  "list_all (\<lambda>key. \<not> kwargs_get no_kwargs key) WORKSPACE_CLI_ARGS
   \<and> list_all (\<lambda>key. \<not> kwargs_get (no_kwargs\<lparr>kw_empty_workspace := True\<rparr>) key)
        WORKSPACE_CLI_ARGS
   \<and> created_workspace_load_target
        \<lparr>getcwd = ''/home'', workspace_yaml_exists = True, executable = ''python''\<rparr>
        (no_kwargs\<lparr>kw_empty_workspace := True\<rparr>) = Inr EmptyWorkspaceTarget
   \<and> created_workspace_load_target
        \<lparr>getcwd = ''/home'', workspace_yaml_exists = True, executable = ''python''\<rparr>
        no_kwargs = Inr (WorkspaceFileTarget [''workspace.yaml''])
   \<and> created_workspace_load_target
        \<lparr>getcwd = ''/home'', workspace_yaml_exists = False, executable = ''python''\<rparr>
        no_kwargs = Inl (UsageError ''No arguments given and workspace.yaml not found.'')"
proof -
  have a: "\<forall>key\<in>set WORKSPACE_CLI_ARGS. \<not> kwargs_get no_kwargs key"
    by (simp add: WORKSPACE_CLI_ARGS_def kwargs_get_def no_kwargs_def)
  have b: "\<forall>key\<in>set WORKSPACE_CLI_ARGS.
             \<not> kwargs_get (no_kwargs\<lparr>kw_empty_workspace := True\<rparr>) key"
    by (simp add: WORKSPACE_CLI_ARGS_def kwargs_get_def no_kwargs_def)
  show ?thesis
    using a b
      no_target_option_default [OF b,
        of "\<lparr>getcwd = ''/home'', workspace_yaml_exists = True, executable = ''python''\<rparr>"]
      no_target_option_default [OF a,
        of "\<lparr>getcwd = ''/home'', workspace_yaml_exists = True, executable = ''python''\<rparr>"]
      no_target_option_default [OF a,
        of "\<lparr>getcwd = ''/home'', workspace_yaml_exists = False, executable = ''python''\<rparr>"]
    by (simp add: no_kwargs_def list_all_iff)
qed

text \<open>
  Claim C8. The working directory resolved from an option map is \<open>None\<close> when the
  empty-working-directory flag is set, whatever directory was given; otherwise the given
  working directory when one is given (a non-empty string); otherwise the current
  directory of the process. It is the working directory of every \<open>PythonFileTarget\<close> that
  \<open>created_workspace_load_target\<close> returns.
\<close>

theorem working_directory_resolution:
  "get_working_directory_from_kwargs os kw =
     (if kw_empty_working_directory kw then None
      else if kw_working_directory kw \<noteq> None \<and> kw_working_directory kw \<noteq> Some []
        then kw_working_directory kw
      else Some (getcwd os))
   \<and> (created_workspace_load_target os kw = Inr (PythonFileTarget f a wd l) \<longrightarrow>
        wd = get_working_directory_from_kwargs os kw)"
proof -
  have "kwargs_get kw ''working_directory'' =
          (kw_working_directory kw \<noteq> None \<and> kw_working_directory kw \<noteq> Some [])"
    by (cases "kw_working_directory kw") (simp_all add: kwargs_get_def)
  moreover have "kwargs_get kw ''empty_working_directory'' = kw_empty_working_directory kw"
    by (simp add: kwargs_get_def)
  ultimately have first: "get_working_directory_from_kwargs os kw =
     (if kw_empty_working_directory kw then None
      else if kw_working_directory kw \<noteq> None \<and> kw_working_directory kw \<noteq> Some []
        then kw_working_directory kw
      else Some (getcwd os))"
    by (simp add: get_working_directory_from_kwargs_def)
  have "created_workspace_load_target os kw = Inr (PythonFileTarget f a wd l) \<Longrightarrow>
        wd = get_working_directory_from_kwargs os kw"
    unfolding created_workspace_load_target_def check_cli_arguments_none_eq
    by (auto simp: cli_load_invariant_def split: if_splits)
  with first show ?thesis by blast
qed

theorem working_directory_resolution_witness:
  "created_workspace_load_target
      \<lparr>getcwd = ''/home'', workspace_yaml_exists = False, executable = ''python''\<rparr>
      (no_kwargs\<lparr>kw_python_file := Some ''repo.py'', kw_working_directory := Some ''/srv''\<rparr>)
    = Inr (PythonFileTarget (Some ''repo.py'') None (Some ''/srv'') None)
   \<and> get_working_directory_from_kwargs
      \<lparr>getcwd = ''/home'', workspace_yaml_exists = False, executable = ''python''\<rparr>
      (no_kwargs\<lparr>kw_python_file := Some ''repo.py'', kw_working_directory := Some ''/srv''\<rparr>)
    = Some ''/srv''
   \<and> get_working_directory_from_kwargs
      \<lparr>getcwd = ''/home'', workspace_yaml_exists = False, executable = ''python''\<rparr>
      (no_kwargs\<lparr>kw_python_file := Some ''repo.py'', kw_working_directory := Some ''/srv'',
         kw_empty_working_directory := True\<rparr>)
    = None
   \<and> get_working_directory_from_kwargs
      \<lparr>getcwd = ''/home'', workspace_yaml_exists = False, executable = ''python''\<rparr>
      (no_kwargs\<lparr>kw_python_file := Some ''repo.py''\<rparr>)
    = Some ''/home''"
proof -
  have t: "created_workspace_load_target
      \<lparr>getcwd = ''/home'', workspace_yaml_exists = False, executable = ''python''\<rparr>
      (no_kwargs\<lparr>kw_python_file := Some ''repo.py'', kw_working_directory := Some ''/srv''\<rparr>)
    = Inr (PythonFileTarget (Some ''repo.py'') None (Some ''/srv'') None)"
    by (simp add: created_workspace_load_target_def WORKSPACE_CLI_ARGS_def kwargs_get_def
        no_kwargs_def cli_load_invariant_def get_working_directory_from_kwargs_def)
  show ?thesis
    using t
      working_directory_resolution [of
        "\<lparr>getcwd = ''/home'', workspace_yaml_exists = False, executable = ''python''\<rparr>"
        "no_kwargs\<lparr>kw_python_file := Some ''repo.py'', kw_working_directory := Some ''/srv''\<rparr>"
        "Some ''repo.py''" None "Some ''/srv''" None]
      working_directory_resolution [of
        "\<lparr>getcwd = ''/home'', workspace_yaml_exists = False, executable = ''python''\<rparr>"
        "no_kwargs\<lparr>kw_python_file := Some ''repo.py'', kw_working_directory := Some ''/srv'',
           kw_empty_working_directory := True\<rparr>"]
      working_directory_resolution [of
        "\<lparr>getcwd = ''/home'', workspace_yaml_exists = False, executable = ''python''\<rparr>"
        "no_kwargs\<lparr>kw_python_file := Some ''repo.py''\<rparr>"]
    by (simp add: no_kwargs_def)
qed

text \<open>
  Claim C10. A gRPC host given without any of the governing options (no workspace, file,
  module, package, port or socket) opens no branch: the resolver does not take the
  empty or default workspace branch, since \<open>grpc_host\<close> is a key of
  \<open>WORKSPACE_CLI_ARGS\<close>, returns no server target, and ends in \<open>_cli_load_invariant(False)\<close>
  with the generic usage error. This holds whatever the remaining options are, so in
  particular when the host is the only option supplied.
\<close>

theorem grpc_host_alone_rejected:
  assumes "kwargs_get kw ''grpc_host''"
    and "\<forall>key\<in>set governing_options. \<not> kwargs_get kw key"
  shows "created_workspace_load_target os kw = Inl (UsageError default_invariant_msg)"
proof -
  have "\<not> are_all_keys_empty kw WORKSPACE_CLI_ARGS"
    using assms(1) by (simp add: are_all_keys_empty_eq WORKSPACE_CLI_ARGS_def)
  then show ?thesis
    using assms(2)
    by (simp add: created_workspace_load_target_def governing_options_def
        cli_load_invariant_def)
qed

theorem grpc_host_alone_rejected_witness:
  "kwargs_get (no_kwargs\<lparr>kw_grpc_host := Some ''example.org'', kw_empty_workspace := True\<rparr>)
     ''grpc_host''
   \<and> list_all (\<lambda>key. \<not> kwargs_get (no_kwargs\<lparr>kw_grpc_host := Some ''example.org'',
             kw_empty_workspace := True\<rparr>) key) governing_options
   \<and> created_workspace_load_target
        \<lparr>getcwd = ''/home'', workspace_yaml_exists = True, executable = ''python''\<rparr>
        (no_kwargs\<lparr>kw_grpc_host := Some ''example.org'', kw_empty_workspace := True\<rparr>)
      = Inl (UsageError
         ''Invalid set of CLI arguments for loading repository/pipeline. See --help for details.'')"
proof -
  have a: "kwargs_get (no_kwargs\<lparr>kw_grpc_host := Some ''example.org'',
             kw_empty_workspace := True\<rparr>) ''grpc_host''"
    by (simp add: kwargs_get_def no_kwargs_def)
  have b: "\<forall>key\<in>set governing_options.
        \<not> kwargs_get (no_kwargs\<lparr>kw_grpc_host := Some ''example.org'',
             kw_empty_workspace := True\<rparr>) key"
    by (simp add: governing_options_def kwargs_get_def no_kwargs_def)
  show ?thesis
    using a b grpc_host_alone_rejected [OF a b, of
        "\<lparr>getcwd = ''/home'', workspace_yaml_exists = True, executable = ''python''\<rparr>"]
    by (simp add: default_invariant_msg_def list_all_iff)
qed

text \<open>
  Claim C2. Selecting a location when no name is requested: with no location the
  function fails with its empty message; with exactly one location that location is the
  one selected, and it is returned (the load check of the second part, claim C6, applies
  to it as to any selected location); with more than one it fails with the ambiguity
  message, which renders exactly the candidate names, sorted lexicographically, each in
  single quotes, separated by a comma and a space, between square brackets.
\<close>

theorem location_selection_without_name:
  fixes ws :: "'loc workspace_request_context"
  defines "names \<equiv> repository_location_names ws"
  shows "(names = [] \<longrightarrow>
            get_repository_location_from_workspace ws None =
              Inl (UsageError ''No locations found in workspace''))
       \<and> (names = [n] \<longrightarrow>
            select_repository_location_name ws None = Inr n
            \<and> get_repository_location_from_workspace ws None =
                load_selected_repository_location ws n
            \<and> (repository_location_error ws n = None \<longrightarrow>
                 get_repository_location_from_workspace ws None =
                   Inr (repository_location ws n)))
       \<and> (1 < length names \<longrightarrow>
            get_repository_location_from_workspace ws None =
              Inl (UsageError
                    (''Must provide --location as there are multiple locations available. ''
                     @ ''Options are: ''
                     @ ''['' @ py_join '', '' (map (\<lambda>s. [CHR 0x27] @ s @ [CHR 0x27]) (sort names))
                     @ '']''))
            \<and> sorted (sort names) \<and> mset (sort names) = mset names)"
proof (intro conjI impI)
  assume "names = []"
  then show "get_repository_location_from_workspace ws None =
      Inl (UsageError ''No locations found in workspace'')"
    by (simp add: names_def get_repository_location_from_workspace_def
        select_repository_location_name_def)
next
  assume one: "names = [n]"
  then show sel: "select_repository_location_name ws None = Inr n"
    by (simp add: names_def select_repository_location_name_def)
  from sel show same: "get_repository_location_from_workspace ws None =
      load_selected_repository_location ws n"
    by (simp add: get_repository_location_from_workspace_def)
  assume "repository_location_error ws n = None"
  with sel show "get_repository_location_from_workspace ws None = Inr (repository_location ws n)"
    by (simp add: get_repository_location_from_workspace_def
        load_selected_repository_location_def)
next
  have q: "map quoted (sort names) = map (\<lambda>s. [CHR 0x27] @ s @ [CHR 0x27]) (sort names)"
    by (simp add: quoted_def)
  assume "1 < length names"
  then have "length names \<noteq> 1" and "length names \<noteq> 0"
    by auto
  then show "get_repository_location_from_workspace ws None =
      Inl (UsageError
            (''Must provide --location as there are multiple locations available. ''
             @ ''Options are: ''
             @ ''['' @ py_join '', '' (map (\<lambda>s. [CHR 0x27] @ s @ [CHR 0x27]) (sort names))
             @ '']''))"
    unfolding get_repository_location_from_workspace_def select_repository_location_name_def
      sorted_quoted_def q [unfolded names_def] names_def Let_def
    by simp
next
  show "sorted (sort names)" by simp
next
  show "mset (sort names) = mset names" by simp
qed

theorem location_selection_without_name_witness:
  "get_repository_location_from_workspace
      \<lparr>repository_location_names = [], repository_location_error = (\<lambda>n. None),
       repository_location = (\<lambda>n. n)\<rparr> None
     = Inl (UsageError ''No locations found in workspace'')
   \<and> get_repository_location_from_workspace
      \<lparr>repository_location_names = [''loc1''], repository_location_error = (\<lambda>n. None),
       repository_location = (\<lambda>n. n)\<rparr> None
     = Inr ''loc1''
   \<and> get_repository_location_from_workspace
      \<lparr>repository_location_names = [''c'', ''a'', ''b''], repository_location_error = (\<lambda>n. None),
       repository_location = (\<lambda>n. n)\<rparr> None
     = Inl (UsageError (''Must provide --location as there are multiple locations available. ''
           @ ''Options are: ['' @ [CHR 0x27] @ ''a'' @ [CHR 0x27] @ '', '' @ [CHR 0x27] @ ''b''
           @ [CHR 0x27] @ '', '' @ [CHR 0x27] @ ''c'' @ [CHR 0x27] @ '']''))"
  using location_selection_without_name [of
      "\<lparr>repository_location_names = [], repository_location_error = (\<lambda>n. None),
        repository_location = (\<lambda>n. n)\<rparr>" "''loc1''"]
    location_selection_without_name [of
      "\<lparr>repository_location_names = [''loc1''], repository_location_error = (\<lambda>n. None),
        repository_location = (\<lambda>n. n)\<rparr>" "''loc1''"]
    location_selection_without_name [of
      "\<lparr>repository_location_names = [''c'', ''a'', ''b''], repository_location_error = (\<lambda>n. None),
        repository_location = (\<lambda>n. n)\<rparr>" "''loc1''"]
  by (simp add: load_selected_repository_location_def)

text \<open>
  Claim C6. Whenever the selected location, named by the caller or selected as the only
  one of the workspace, reports a load error, \<open>get_repository_location_from_workspace\<close>
  fails with the usage error \<open>Error loading location "name": text\<close> that carries the text
  of the underlying error. No location is returned, so the repository and pipeline steps
  chained after it do not run: they end in the same error, whatever the location holds
  and whatever repository or pipeline was asked for.
\<close>

theorem failed_location_stops_navigation:
  fixes ws :: "'a repository_location_rec workspace_request_context"
  assumes "kw_location kw = Some n \<and> n \<in> set (repository_location_names ws)
           \<or> kw_location kw = None \<and> repository_location_names ws = [n]"
    and "repository_location_error ws n = Some error_str"
  shows \<open>get_repository_location_from_workspace ws (kw_location kw) =
           Inl (UsageError (''Error loading location "'' @ n @ ''": '' @ error_str))
       \<and> get_external_repository_from_kwargs ws kw =
           Inl (UsageError (''Error loading location "'' @ n @ ''": '' @ error_str))
       \<and> get_external_pipeline_from_kwargs ws kw =
           Inl (UsageError (''Error loading location "'' @ n @ ''": '' @ error_str))\<close>
proof -
  have "select_repository_location_name ws (kw_location kw) = Inr n"
    using assms(1) by (auto simp: select_repository_location_name_def)
  then have \<open>get_repository_location_from_workspace ws (kw_location kw) =
           Inl (UsageError (''Error loading location "'' @ n @ ''": '' @ error_str))\<close>
    using assms(2)
    by (simp add: get_repository_location_from_workspace_def
        load_selected_repository_location_def)
  then show ?thesis
    by (simp add: get_external_pipeline_from_kwargs_def get_external_repository_from_kwargs_def
        get_repository_location_from_kwargs_def)
qed

theorem failed_location_stops_navigation_witness:
  \<open>get_external_pipeline_from_kwargs
      \<lparr>repository_location_names = [''loc1''],
       repository_location_error = (\<lambda>n. Some ''connection refused''),
       repository_location =
         (\<lambda>n. \<lparr>location_name = n,
                get_repositories =
                  [(''r1'', \<lparr>repository_name = ''r1'',
                            get_all_external_pipelines =
                              [\<lparr>pipeline_name = ''p1'', pipeline_data = ()\<rparr>]\<rparr>)]\<rparr>)\<rparr>
      (no_kwargs\<lparr>kw_grpc_port := Some 4000\<rparr>)
    = Inl (UsageError ''Error loading location "loc1": connection refused'')\<close>
  using failed_location_stops_navigation [of "no_kwargs\<lparr>kw_grpc_port := Some 4000\<rparr>" "''loc1''"
      "\<lparr>repository_location_names = [''loc1''],
       repository_location_error = (\<lambda>n. Some ''connection refused''),
       repository_location =
         (\<lambda>n. \<lparr>location_name = n,
                get_repositories =
                  [(''r1'', \<lparr>repository_name = ''r1'',
                            get_all_external_pipelines =
                              [\<lparr>pipeline_name = ''p1'', pipeline_data = ()\<rparr>]\<rparr>)]\<rparr>)\<rparr>"
      "''connection refused''"]
  by (simp add: no_kwargs_def)

text \<open>
  Claim C3 states that selection with a supplied name fails with a not-found error for
  every size of the candidate set, the empty one included. In a location without
  repositories the invariant check \<open>check.invariant(repo_dict, ...)\<close> fires first and the
  supplied name is never looked up.
\<close>

theorem empty_repository_map_counterexample:
  \<open>get_external_repository_from_repo_location
      \<lparr>location_name = ''loc1'',
       get_repositories = ([] :: (string, unit external_repository) dict)\<rparr> (Some ''r1'')
     = Inl (CheckInvariantFailed (Some ''There should be at least one repo.''))
   \<and> get_external_repository_from_repo_location
      \<lparr>location_name = ''loc1'',
       get_repositories = ([] :: (string, unit external_repository) dict)\<rparr> (Some ''r1'')
     \<noteq> Inl (UsageError (''Repository "r1" not found in location "loc1". Found [] instead.''))\<close>
  by (simp add: get_external_repository_from_repo_location_def)

text \<open>
  Claim C3, amended. For a supplied name and a candidate map that is not empty,
  repository selection in a location and pipeline selection in a repository return
  \<open>candidates[name]\<close> when the name is a key and otherwise fail with the not-found usage
  error, which lists all candidate names sorted and quoted; this covers a map with one
  entry. With an empty candidate map both fail their invariant check instead (for
  repositories with the description \<open>There should be at least one repo.\<close>).
\<close>

theorem selection_with_name:
  fixes repo_location :: "'a repository_location_rec"
    and external_repo :: "'a external_repository"
  defines "repo_dict \<equiv> get_repositories repo_location"
    and "external_pipelines \<equiv>
           dict_comprehension pipeline_name (\<lambda>ep. ep) (get_all_external_pipelines external_repo)"
  shows \<open>(repo_dict \<noteq> [] \<longrightarrow>
            get_external_repository_from_repo_location repo_location (Some n) =
              (case map_of repo_dict n of
                 Some r \<Rightarrow> Inr r
               | None \<Rightarrow>
                   Inl (UsageError
                     (''Repository "'' @ n @ ''" not found in location "''
                      @ location_name repo_location @ ''". Found ''
                      @ sorted_quoted (map fst repo_dict) @ '' instead.''))))
       \<and> (repo_dict = [] \<longrightarrow>
            get_external_repository_from_repo_location repo_location (Some n) =
              Inl (CheckInvariantFailed (Some ''There should be at least one repo.'')))
       \<and> (get_all_external_pipelines external_repo \<noteq> [] \<longrightarrow>
            get_external_pipeline_from_external_repo external_repo (Some m) =
              (case map_of external_pipelines m of
                 Some p \<Rightarrow> Inr p
               | None \<Rightarrow>
                   Inl (UsageError
                     (''Pipeline "'' @ m @ ''" not found in repository "''
                      @ repository_name external_repo @ ''". Found ''
                      @ sorted_quoted (map fst external_pipelines) @ '' instead.''))))
       \<and> (get_all_external_pipelines external_repo = [] \<longrightarrow>
            get_external_pipeline_from_external_repo external_repo (Some m) =
              Inl (CheckInvariantFailed None))\<close>
proof (intro conjI impI)
  assume "repo_dict \<noteq> []"
  then show \<open>get_external_repository_from_repo_location repo_location (Some n) =
              (case map_of repo_dict n of
                 Some r \<Rightarrow> Inr r
               | None \<Rightarrow>
                   Inl (UsageError
                     (''Repository "'' @ n @ ''" not found in location "''
                      @ location_name repo_location @ ''". Found ''
                      @ sorted_quoted (map fst repo_dict) @ '' instead.'')))\<close>
    unfolding repo_dict_def
    by (auto simp: get_external_repository_from_repo_location_def has_repository_def
        get_repository_def dict_getitem_def dict_contains_iff dict_keys_def
        split: option.splits)
next
  assume "repo_dict = []"
  then show "get_external_repository_from_repo_location repo_location (Some n) =
              Inl (CheckInvariantFailed (Some ''There should be at least one repo.''))"
    unfolding repo_dict_def
    by (simp add: get_external_repository_from_repo_location_def)
next
  assume "get_all_external_pipelines external_repo \<noteq> []"
  then have "external_pipelines \<noteq> []"
    by (simp add: external_pipelines_def dict_comprehension_Nil_iff)
  then show \<open>get_external_pipeline_from_external_repo external_repo (Some m) =
              (case map_of external_pipelines m of
                 Some p \<Rightarrow> Inr p
               | None \<Rightarrow>
                   Inl (UsageError
                     (''Pipeline "'' @ m @ ''" not found in repository "''
                      @ repository_name external_repo @ ''". Found ''
                      @ sorted_quoted (map fst external_pipelines) @ '' instead.'')))\<close>
    unfolding external_pipelines_def
    by (auto simp: get_external_pipeline_from_external_repo_def Let_def
        dict_getitem_def dict_contains_iff dict_keys_def split: option.splits)
next
  assume "get_all_external_pipelines external_repo = []"
  then show "get_external_pipeline_from_external_repo external_repo (Some m) =
              Inl (CheckInvariantFailed None)"
    by (simp add: get_external_pipeline_from_external_repo_def dict_comprehension_def)
qed

theorem selection_with_name_witness:
  \<open>get_external_repository_from_repo_location
      \<lparr>location_name = ''loc1'',
       get_repositories =
         [(''r2'', \<lparr>repository_name = ''r2'', get_all_external_pipelines = []\<rparr>),
          (''r1'', \<lparr>repository_name = ''r1'',
                    get_all_external_pipelines =
                      [\<lparr>pipeline_name = ''p1'', pipeline_data = ()\<rparr>]\<rparr>)]\<rparr>
      (Some ''r1'')
    = Inr \<lparr>repository_name = ''r1'',
           get_all_external_pipelines = [\<lparr>pipeline_name = ''p1'', pipeline_data = ()\<rparr>]\<rparr>
   \<and> get_external_repository_from_repo_location
      \<lparr>location_name = ''loc1'',
       get_repositories =
         [(''r2'', \<lparr>repository_name = ''r2'', get_all_external_pipelines = []\<rparr>),
          (''r1'', \<lparr>repository_name = ''r1'',
                    get_all_external_pipelines =
                      [\<lparr>pipeline_name = ''p1'', pipeline_data = ()\<rparr>]\<rparr>)]\<rparr>
      (Some ''r3'')
    = Inl (UsageError (''Repository "r3" not found in location "loc1". Found [''
         @ [CHR 0x27] @ ''r1'' @ [CHR 0x27] @ '', '' @ [CHR 0x27] @ ''r2'' @ [CHR 0x27]
         @ ''] instead.''))
   \<and> get_external_pipeline_from_external_repo
      \<lparr>repository_name = ''r1'',
       get_all_external_pipelines = [\<lparr>pipeline_name = ''p1'', pipeline_data = ()\<rparr>]\<rparr>
      (Some ''p2'')
    = Inl (UsageError (''Pipeline "p2" not found in repository "r1". Found [''
         @ [CHR 0x27] @ ''p1'' @ [CHR 0x27] @ ''] instead.''))
   \<and> get_external_pipeline_from_external_repo
      \<lparr>repository_name = ''r2'',
       get_all_external_pipelines = ([] :: unit external_pipeline list)\<rparr>
      (Some ''p2'')
    = Inl (CheckInvariantFailed None)\<close>
  using selection_with_name [of
      "\<lparr>location_name = ''loc1'',
       get_repositories =
         [(''r2'', \<lparr>repository_name = ''r2'', get_all_external_pipelines = []\<rparr>),
          (''r1'', \<lparr>repository_name = ''r1'',
                    get_all_external_pipelines =
                      [\<lparr>pipeline_name = ''p1'', pipeline_data = ()\<rparr>]\<rparr>)]\<rparr>"
      "''r1''"
      "\<lparr>repository_name = ''r1'',
       get_all_external_pipelines = [\<lparr>pipeline_name = ''p1'', pipeline_data = ()\<rparr>]\<rparr>"
      "''p2''"]
    selection_with_name [of
      "\<lparr>location_name = ''loc1'',
       get_repositories =
         [(''r2'', \<lparr>repository_name = ''r2'', get_all_external_pipelines = []\<rparr>),
          (''r1'', \<lparr>repository_name = ''r1'',
                    get_all_external_pipelines =
                      [\<lparr>pipeline_name = ''p1'', pipeline_data = ()\<rparr>]\<rparr>)]\<rparr>"
      "''r3''"
      "\<lparr>repository_name = ''r2'',
       get_all_external_pipelines = ([] :: unit external_pipeline list)\<rparr>"
      "''p2''"]
  by (simp add: sorted_quoted_def quoted_def dict_comprehension_def)

text \<open>
  Claim C4 states that an attribute, no repository name and exactly one of python file,
  module name and package name always give an origin. The short cut still runs
  \<open>_check_cli_arguments_none\<close>: its module and package branches reject a working
  directory, so a module with an attribute and a working directory gives the usage error.
\<close>

theorem module_with_working_directory_counterexample:
  "get_repository_python_origin_from_kwargs failing_loader example_process
      (no_kwargs\<lparr>kw_module_name := Some ''pkg.defs'', kw_attribute := Some ''my_repo'',
         kw_working_directory := Some ''/srv''\<rparr>)
    = Inl (UsageError
        ''Invalid set of CLI arguments for loading repository/pipeline. See --help for details.'')"
  by (simp add: get_repository_python_origin_from_kwargs_def kwargs_get_def no_kwargs_def
      cli_load_invariant_def default_invariant_msg_def)

text \<open>
  Claim C4, amended. When an attribute is given, no repository name is given, exactly one
  of python file, module name and package name is set and, for a module or a package, no
  working directory is given, \<open>get_repository_python_origin_from_kwargs\<close> returns the origin
  made of \<open>sys.executable\<close> and a single code pointer: file, attribute and resolved working
  directory; module and attribute; or package and attribute. The result is the same for
  every loader, so no loadable target is enumerated and the origin exists even when the
  repository cannot be loaded.
\<close>

theorem origin_short_circuit:
  assumes "kwargs_get kw ''attribute''" and "\<not> kwargs_get kw ''repository''"
  shows "(kwargs_get kw ''python_file'' \<and> \<not> kwargs_get kw ''module_name''
            \<and> \<not> kwargs_get kw ''package_name'' \<longrightarrow>
          get_repository_python_origin_from_kwargs loader os kw =
            Inr (RepositoryPythonOrigin (executable os)
                  (FileCodePointer (kw_python_file kw) (kw_attribute kw)
                     (get_working_directory_from_kwargs os kw))))
       \<and> (\<not> kwargs_get kw ''python_file'' \<and> kwargs_get kw ''module_name''
            \<and> \<not> kwargs_get kw ''package_name'' \<and> \<not> kwargs_get kw ''working_directory'' \<longrightarrow>
          get_repository_python_origin_from_kwargs loader os kw =
            Inr (RepositoryPythonOrigin (executable os)
                  (ModuleCodePointer (kw_module_name kw) (kw_attribute kw))))
       \<and> (\<not> kwargs_get kw ''python_file'' \<and> \<not> kwargs_get kw ''module_name''
            \<and> kwargs_get kw ''package_name'' \<and> \<not> kwargs_get kw ''working_directory'' \<longrightarrow>
          get_repository_python_origin_from_kwargs loader os kw =
            Inr (RepositoryPythonOrigin (executable os)
                  (PackageCodePointer (kw_package_name kw) (kw_attribute kw))))"
proof -
  have "\<not> str_truthy (kw_repository kw)"
    using assms(2) by (simp add: kwargs_get_def)
  with assms(1) show ?thesis
    by (simp add: get_repository_python_origin_from_kwargs_def cli_load_invariant_def)
qed

theorem origin_short_circuit_witness:
  "get_repository_python_origin_from_kwargs failing_loader example_process
      (no_kwargs\<lparr>kw_python_file := Some ''repo.py'', kw_attribute := Some ''my_repo''\<rparr>)
    = Inr (RepositoryPythonOrigin ''python''
            (FileCodePointer (Some ''repo.py'') (Some ''my_repo'') (Some ''/home'')))
   \<and> get_repository_python_origin_from_kwargs failing_loader example_process
      (no_kwargs\<lparr>kw_module_name := Some ''pkg.defs'', kw_attribute := Some ''my_repo''\<rparr>)
    = Inr (RepositoryPythonOrigin ''python'' (ModuleCodePointer (Some ''pkg.defs'') (Some ''my_repo'')))
   \<and> get_repository_python_origin_from_kwargs failing_loader example_process
      (no_kwargs\<lparr>kw_package_name := Some ''pkg'', kw_attribute := Some ''my_repo''\<rparr>)
    = Inr (RepositoryPythonOrigin ''python'' (PackageCodePointer (Some ''pkg'') (Some ''my_repo'')))"
proof -
  have a: "kwargs_get (no_kwargs\<lparr>kw_python_file := Some ''repo.py'',
              kw_attribute := Some ''my_repo''\<rparr>) ''attribute''"
    and b: "\<not> kwargs_get (no_kwargs\<lparr>kw_python_file := Some ''repo.py'',
              kw_attribute := Some ''my_repo''\<rparr>) ''repository''"
    and c: "kwargs_get (no_kwargs\<lparr>kw_module_name := Some ''pkg.defs'',
              kw_attribute := Some ''my_repo''\<rparr>) ''attribute''"
    and d: "\<not> kwargs_get (no_kwargs\<lparr>kw_module_name := Some ''pkg.defs'',
              kw_attribute := Some ''my_repo''\<rparr>) ''repository''"
    and e: "kwargs_get (no_kwargs\<lparr>kw_package_name := Some ''pkg'',
              kw_attribute := Some ''my_repo''\<rparr>) ''attribute''"
    and f: "\<not> kwargs_get (no_kwargs\<lparr>kw_package_name := Some ''pkg'',
              kw_attribute := Some ''my_repo''\<rparr>) ''repository''"
    by (simp_all add: kwargs_get_def no_kwargs_def)
  show ?thesis
    using origin_short_circuit [OF a b, of failing_loader example_process]
      origin_short_circuit [OF c d, of failing_loader example_process]
      origin_short_circuit [OF e f, of failing_loader example_process]
    by (simp add: kwargs_get_def no_kwargs_def example_process_def
        get_working_directory_from_kwargs_def)
qed




text \<open>
  Claim C7. For a python file target, a module target and a package target alike,
  \<open>_get_code_pointer_dict_from_kwargs\<close> returns a dict, and in it the entry of a repository
  name is the pointer built from the last loadable target that yields this name: a later
  target overwrites what an earlier target of the same name stored. The pointer is the
  file with the target's attribute and the working directory, the module with the
  attribute, or the package with the attribute.
\<close>

theorem code_pointer_dict_last_write_wins:
  fixes loader :: "'d code_loader"
  assumes "get_loadable_targets loader (kw_python_file kw) (kw_module_name kw)
             (kw_package_name kw) (get_working_directory_from_kwargs os kw) (kw_attribute kw)
           = Inr (earlier @ t # later)"
    and "\<forall>u\<in>set later. repository_def_name loader (target_definition u) \<noteq>
                        repository_def_name loader (target_definition t)"
  shows "(kwargs_get kw ''python_file'' \<and> \<not> kwargs_get kw ''module_name''
            \<and> \<not> kwargs_get kw ''package_name'' \<longrightarrow>
          (\<exists>code_pointer_dict.
             get_code_pointer_dict_from_kwargs loader os kw = Inr code_pointer_dict
             \<and> dict_getitem code_pointer_dict (repository_def_name loader (target_definition t)) =
                 Inr (FileCodePointer (kw_python_file kw) (Some (target_attribute t))
                        (get_working_directory_from_kwargs os kw))))
       \<and> (\<not> kwargs_get kw ''python_file'' \<and> kwargs_get kw ''module_name''
            \<and> \<not> kwargs_get kw ''package_name'' \<and> \<not> kwargs_get kw ''working_directory'' \<longrightarrow>
          (\<exists>code_pointer_dict.
             get_code_pointer_dict_from_kwargs loader os kw = Inr code_pointer_dict
             \<and> dict_getitem code_pointer_dict (repository_def_name loader (target_definition t)) =
                 Inr (ModuleCodePointer (kw_module_name kw) (Some (target_attribute t)))))
       \<and> (\<not> kwargs_get kw ''python_file'' \<and> \<not> kwargs_get kw ''module_name''
            \<and> kwargs_get kw ''package_name'' \<and> \<not> kwargs_get kw ''working_directory'' \<longrightarrow>
          (\<exists>code_pointer_dict.
             get_code_pointer_dict_from_kwargs loader os kw = Inr code_pointer_dict
             \<and> dict_getitem code_pointer_dict (repository_def_name loader (target_definition t)) =
                 Inr (PackageCodePointer (kw_package_name kw) (Some (target_attribute t)))))"
proof -
  let ?name = "\<lambda>u. repository_def_name loader (target_definition u)"
  have last: "map_of (dict_comprehension ?name val (earlier @ t # later)) (?name t) = Some (val t)"
    for val :: "'d loadable_target \<Rightarrow> code_pointer"
    using assms(2) by (rule map_of_dict_comprehension_last)
  show ?thesis
    using assms(1)
    by (simp add: get_code_pointer_dict_from_kwargs_def Let_def dict_getitem_def last
        cli_load_invariant_def)
qed

theorem code_pointer_dict_last_write_wins_witness:
  "get_code_pointer_dict_from_kwargs two_target_loader example_process
      (no_kwargs\<lparr>kw_python_file := Some ''repo.py''\<rparr>)
    = Inr [(''main_repo'', FileCodePointer (Some ''repo.py'') (Some ''second'') (Some ''/home''))]
   \<and> get_code_pointer_dict_from_kwargs two_target_loader example_process
      (no_kwargs\<lparr>kw_module_name := Some ''pkg.defs''\<rparr>)
    = Inr [(''main_repo'', ModuleCodePointer (Some ''pkg.defs'') (Some ''second''))]
   \<and> get_code_pointer_dict_from_kwargs two_target_loader example_process
      (no_kwargs\<lparr>kw_package_name := Some ''pkg''\<rparr>)
    = Inr [(''main_repo'', PackageCodePointer (Some ''pkg'') (Some ''second''))]"
proof -
  let ?f = "no_kwargs\<lparr>kw_python_file := Some ''repo.py''\<rparr>"
  let ?m = "no_kwargs\<lparr>kw_module_name := Some ''pkg.defs''\<rparr>"
  let ?p = "no_kwargs\<lparr>kw_package_name := Some ''pkg''\<rparr>"
  let ?t = "\<lparr>target_attribute = ''second'', target_definition = ''main_repo''\<rparr>"
  have targets: "get_loadable_targets two_target_loader (kw_python_file kw) (kw_module_name kw)
             (kw_package_name kw) (get_working_directory_from_kwargs example_process kw)
             (kw_attribute kw)
           = Inr ([\<lparr>target_attribute = ''first'', target_definition = ''main_repo''\<rparr>] @ ?t # [])"
    for kw
    by (simp add: two_target_loader_def)
  have none_later: "\<forall>u\<in>set []. repository_def_name two_target_loader (target_definition u) \<noteq>
                        repository_def_name two_target_loader (target_definition ?t)"
    by simp
  show ?thesis
    using code_pointer_dict_last_write_wins [OF targets [of ?f] none_later]
      code_pointer_dict_last_write_wins [OF targets [of ?m] none_later]
      code_pointer_dict_last_write_wins [OF targets [of ?p] none_later]
    by (simp add: get_code_pointer_dict_from_kwargs_def two_target_loader_def kwargs_get_def
        no_kwargs_def cli_load_invariant_def dict_comprehension_def example_process_def
        get_working_directory_from_kwargs_def)
qed

end
